theory Spec2Isabelle
  imports Main "HOL-Library.AList" "HOL-Library.Word"
begin

section \<open>JavaScript values\<close>

text \<open>
  \<^verbatim>\<open>getApiErrorMessage(error: any)\<close> receives whatever a \<^verbatim>\<open>catch\<close> block caught, so its
  argument ranges over JavaScript values. The values modelled are \<^verbatim>\<open>undefined\<close>,
  \<^verbatim>\<open>null\<close>, booleans, numbers, strings and plain objects.
  \<^item> A number is an integer from \<open>- 2 ^ 53\<close> to \<open>2 ^ 53 - 1\<close>, the value of a signed word
    of 54 bits. Each of them is a number of JavaScript, and JavaScript prints each of them
    in decimal digits. HTTP status codes are among them.
  \<^item> A string is a list of code units in the range 0..255.
  \<^item> A plain object has the prototype \<^verbatim>\<open>Object.prototype\<close> and a list of own data
    properties with string keys (first binding wins), whose values are modelled values
    again. So no property holds a function.
\<close>

datatype jsval =
    JUndefined
  | JNull
  | JBool bool
  | JNum "54 word"
  | JStr string
  | JObj "(string \<times> jsval) list"

text \<open>
  The only exception the modelled code can raise: a property read on null or undefined, or
  the conversion to a string of an object that has no usable \<^verbatim>\<open>toString\<close>.
\<close>

datatype exn = TypeError

text \<open>Truthiness, as used by \<^verbatim>\<open>if (x)\<close>, \<^verbatim>\<open>!x\<close>, \<^verbatim>\<open>a || b\<close> and \<^verbatim>\<open>a && b\<close>.\<close>

fun truthy :: "jsval \<Rightarrow> bool" where
  "truthy JUndefined = False"
| "truthy JNull = False"
| "truthy (JBool b) = b"
| "truthy (JNum n) = (n \<noteq> 0)"
| "truthy (JStr s) = (s \<noteq> [])"
| "truthy (JObj ps) = True"

text \<open>\<^verbatim>\<open>a || b\<close>: the left operand when it is truthy, the right one otherwise.\<close>

definition js_or :: "jsval \<Rightarrow> jsval \<Rightarrow> jsval" where
  "js_or a b = (if truthy a then a else b)"

text \<open>
  Reading a property. On an object it is the property's value or \<^verbatim>\<open>undefined\<close>; on a
  boolean, number or string none of the names read by this program (\<^verbatim>\<open>message\<close>,
  \<^verbatim>\<open>response\<close>, \<^verbatim>\<open>request\<close>, \<^verbatim>\<open>data\<close>, \<^verbatim>\<open>status\<close>, \<^verbatim>\<open>statusText\<close>,
  \<^verbatim>\<open>isAxiosError\<close>) exists on the prototype, so the read gives \<^verbatim>\<open>undefined\<close>; on
  \<^verbatim>\<open>null\<close> and \<^verbatim>\<open>undefined\<close> the read \<^verbatim>\<open>x.p\<close> throws a TypeError, while \<^verbatim>\<open>x?.p\<close>
  gives \<^verbatim>\<open>undefined\<close>.
\<close>

fun own_prop :: "jsval \<Rightarrow> string \<Rightarrow> jsval" where
  "own_prop (JObj ps) k = (case map_of ps k of None \<Rightarrow> JUndefined | Some v \<Rightarrow> v)"
| "own_prop _ k = JUndefined"

fun nullish :: "jsval \<Rightarrow> bool" where
  "nullish JUndefined = True"
| "nullish JNull = True"
| "nullish _ = False"

definition get_prop :: "jsval \<Rightarrow> string \<Rightarrow> exn + jsval" where
  "get_prop x k = (if nullish x then Inl TypeError else Inr (own_prop x k))"

definition opt_prop :: "jsval \<Rightarrow> string \<Rightarrow> jsval" where
  "opt_prop x k = (if nullish x then JUndefined else own_prop x k)"

text \<open>Sequencing of computations that may throw.\<close>

fun bindE :: "exn + 'a \<Rightarrow> ('a \<Rightarrow> exn + 'b) \<Rightarrow> exn + 'b" where
  "bindE (Inl e) f = Inl e"
| "bindE (Inr a) f = f a"

text \<open>Conversion to a string, as a template literal \<^verbatim>\<open>`${x}`\<close> performs it.\<close>

definition digit_char :: "nat \<Rightarrow> char" where
  "digit_char d = ''0123456789'' ! d"

fun show_nat :: "nat \<Rightarrow> string" where
  "show_nat n = (if n < 10 then [digit_char n] else show_nat (n div 10) @ [digit_char (n mod 10)])"

definition show_int :: "int \<Rightarrow> string" where
  "show_int i = (if i < 0 then CHR ''-'' # show_nat (nat (- i)) else show_nat (nat i))"

text \<open>
  An object is converted by calling its \<^verbatim>\<open>toString\<close> and, failing that, its
  \<^verbatim>\<open>valueOf\<close>. The inherited \<^verbatim>\<open>toString\<close> gives \<^verbatim>\<open>[object Object]\<close>. An own property
  named \<^verbatim>\<open>toString\<close> hides it, and no modelled value can be called; then \<^verbatim>\<open>valueOf\<close> is
  tried, which is either an own property (not callable) or the inherited one (it returns
  the object itself, not a primitive), and the conversion throws a TypeError.
\<close>

fun printable :: "jsval \<Rightarrow> bool" where
  "printable (JObj ps) = (map_of ps ''toString'' = None)"
| "printable _ = True"

fun to_string :: "jsval \<Rightarrow> exn + string" where
  "to_string JUndefined = Inr ''undefined''"
| "to_string JNull = Inr ''null''"
| "to_string (JBool b) = Inr (if b then ''true'' else ''false'')"
| "to_string (JNum n) = Inr (show_int (sint n))"
| "to_string (JStr s) = Inr s"
| "to_string (JObj ps) =
     (if map_of ps ''toString'' = None then Inr ''[object Object]'' else Inl TypeError)"

section \<open>HTTP client wrapper: error normalisation\<close>

text \<open>
  \<^verbatim>\<open>axios.isAxiosError(payload)\<close> is the library's
  \<^verbatim>\<open>isObject(payload) && payload.isAxiosError === true\<close>, where \<^verbatim>\<open>isObject\<close> is
  \<^verbatim>\<open>thing !== null && typeof thing === 'object'\<close>.
\<close>

fun isObject :: "jsval \<Rightarrow> bool" where
  "isObject (JObj ps) = True"
| "isObject _ = False"

definition isAxiosError :: "jsval \<Rightarrow> bool" where
  "isAxiosError payload = (isObject payload \<and> own_prop payload ''isAxiosError'' = JBool True)"

definition NO_RESPONSE :: string where
  "NO_RESPONSE = ''No response from server. Please check your network connection.''"

definition UNEXPECTED :: string where
  "UNEXPECTED = ''An unexpected error occurred.''"

text \<open>
  \<^verbatim>\<open>getApiErrorMessage\<close> (the same text in \<^verbatim>\<open>services/api.ts\<close> and
  \<^verbatim>\<open>frontent/services/api.ts\<close>). Every property read \<^verbatim>\<open>x.p\<close> is a \<open>get_prop\<close>, so each
  place where the source could throw is a branch of the model, and so is each conversion
  \<^verbatim>\<open>${x}\<close> of the template literal; the right operand of \<^verbatim>\<open>||\<close> is evaluated only when
  the left one is falsy.
\<close>

definition getApiErrorMessage :: "jsval \<Rightarrow> exn + jsval" where
  "getApiErrorMessage error =
     (let fallthrough =
            bindE (get_prop error ''message'') (\<lambda>message.
            Inr (js_or message (JStr UNEXPECTED)))
      in
      if isAxiosError error then
        bindE (get_prop error ''response'') (\<lambda>response.
        if truthy response then
          bindE (get_prop response ''data'') (\<lambda>data.
          let message = opt_prop data ''message'' in
          if truthy message then Inr message
          else
            bindE (get_prop response ''status'') (\<lambda>status.
            bindE (to_string status) (\<lambda>status_string.
            bindE (get_prop response ''statusText'') (\<lambda>statusText.
            bindE (to_string statusText) (\<lambda>statusText_string.
            Inr (JStr (''Error: '' @ status_string @ '' - '' @ statusText_string)))))))
        else
          bindE (get_prop error ''request'') (\<lambda>request.
          if truthy request then Inr (JStr NO_RESPONSE) else fallthrough))
      else fallthrough)"

text \<open>
  Three notions to speak about the function's inputs: whether it has to put the status
  string together (an Axios error with a response whose body has no truthy \<^verbatim>\<open>message\<close>);
  whether status and status text of the response can both be converted to strings; and
  the \<^verbatim>\<open>message\<close> field the function looks at (none when it answers with the fixed
  no-response string).
\<close>

definition synthesizes :: "jsval \<Rightarrow> bool" where
  "synthesizes e =
     (isAxiosError e \<and> truthy (own_prop e ''response'')
      \<and> \<not> truthy (opt_prop (own_prop (own_prop e ''response'') ''data'') ''message''))"

definition status_printable :: "jsval \<Rightarrow> bool" where
  "status_printable e =
     (printable (own_prop (own_prop e ''response'') ''status'')
      \<and> printable (own_prop (own_prop e ''response'') ''statusText''))"

definition selected_message :: "jsval \<Rightarrow> jsval option" where
  "selected_message e =
     (if isAxiosError e \<and> truthy (own_prop e ''response'')
      then Some (opt_prop (own_prop (own_prop e ''response'') ''data'') ''message'')
      else if isAxiosError e \<and> truthy (own_prop e ''request'') then None
      else Some (own_prop e ''message''))"

fun is_string :: "jsval \<Rightarrow> bool" where
  "is_string (JStr s) = True"
| "is_string _ = False"

section \<open>HTTP client wrapper: request interceptors\<close>

text \<open>A request configuration as the interceptors see it.\<close>

record request =
  method_name :: string
  url :: string
  body :: "(string \<times> string) list"
  headers :: "(string \<times> string) list"

text \<open>
  \<^verbatim>\<open>localStorage.getItem('divine_token')\<close> is a string or \<^verbatim>\<open>null\<close>; \<^verbatim>\<open>if (token)\<close> holds
  for a non-empty string only.
\<close>

fun token_truthy :: "string option \<Rightarrow> bool" where
  "token_truthy None = False"
| "token_truthy (Some tok) = (tok \<noteq> [])"

text \<open>
  The request interceptor of \<^verbatim>\<open>services/api.ts\<close>:
  \<^verbatim>\<open>if (token) config.headers.Authorization = `Bearer ${token}`; return config\<close>.
  Its first argument is what \<^verbatim>\<open>localStorage.getItem('divine_token')\<close> returns at request time.
\<close>

definition request_interceptor :: "string option \<Rightarrow> request \<Rightarrow> request" where
  "request_interceptor stored config =
     (case stored of
        None \<Rightarrow> config
      | Some tok \<Rightarrow>
          if token_truthy (Some tok)
          then config\<lparr>headers := AList.update ''Authorization'' (''Bearer '' @ tok) (headers config)\<rparr>
          else config)"

text \<open>
  The request interceptor of \<^verbatim>\<open>frontent/services/api.ts\<close>: it writes the method, URL and
  base URL to the console and returns the configuration as it came; storage is never read.
\<close>

definition frontent_request_interceptor :: "string option \<Rightarrow> request \<Rightarrow> request" where
  "frontent_request_interceptor stored config = config"

definition getMe_request :: request where
  "getMe_request = \<lparr>method_name = ''GET'', url = ''/auth/me'', body = [], headers = []\<rparr>"

definition loginUser_request :: "string \<Rightarrow> string \<Rightarrow> request" where
  "loginUser_request email password =
     \<lparr>method_name = ''POST'', url = ''/auth/login'',
      body = [(''email'', email), (''password'', password)], headers = []\<rparr>"

definition registerUser_request :: "string \<Rightarrow> string \<Rightarrow> string \<Rightarrow> string \<Rightarrow> request" where
  "registerUser_request name email mobile password =
     \<lparr>method_name = ''POST'', url = ''/auth/register'',
      body = [(''name'', name), (''email'', email), (''mobile'', mobile), (''password'', password)],
      headers = []\<rparr>"

section \<open>Session store (\<^verbatim>\<open>AuthProvider\<close>)\<close>

text \<open>
  The state the provider reads and writes: the \<^verbatim>\<open>divine_token\<close> entry of local storage, the
  two React state cells, and a trace of what the provider did to the outside: every request
  handed to the network (after the interceptor of \<^verbatim>\<open>services/api.ts\<close>, which this provider
  imports) and every call of \<^verbatim>\<open>setIsLoading\<close>. The type \<open>'u\<close> stands for \<^verbatim>\<open>User\<close>,
  declared in \<^verbatim>\<open>../types\<close>.
\<close>

datatype event = Sent request | LoadingSet bool

record 'u world =
  divine_token :: "string option"
  user :: "'u option"
  isLoading :: bool
  trace :: "event list"

text \<open>\<^verbatim>\<open>useState<User | null>(null)\<close>, \<^verbatim>\<open>useState(true)\<close>.\<close>

definition initial :: "string option \<Rightarrow> 'u world" where
  "initial stored = \<lparr>divine_token = stored, user = None, isLoading = True, trace = []\<rparr>"

definition isAuthenticated :: "'u world \<Rightarrow> bool" where
  "isAuthenticated w = (user w \<noteq> None)"

definition setItem :: "string \<Rightarrow> 'u world \<Rightarrow> 'u world" where
  "setItem tok w = w\<lparr>divine_token := Some tok\<rparr>"

definition removeItem :: "'u world \<Rightarrow> 'u world" where
  "removeItem w = w\<lparr>divine_token := None\<rparr>"

definition setUser :: "'u option \<Rightarrow> 'u world \<Rightarrow> 'u world" where
  "setUser u w = w\<lparr>user := u\<rparr>"

definition setIsLoading :: "bool \<Rightarrow> 'u world \<Rightarrow> 'u world" where
  "setIsLoading b w = w\<lparr>isLoading := b, trace := trace w @ [LoadingSet b]\<rparr>"

text \<open>A call through the \<^verbatim>\<open>api\<close> instance: the interceptor runs, then the request leaves.\<close>

definition api_call :: "request \<Rightarrow> 'u world \<Rightarrow> 'u world" where
  "api_call config w = w\<lparr>trace := trace w @ [Sent (request_interceptor (divine_token w) config)]\<rparr>"

text \<open>
  How an awaited call ends: the promise is fulfilled with the payload the caller reads out
  of the response body, or it is rejected with whatever was thrown. The functions below
  describe runs in which the awaited call settles.
\<close>

datatype 'a outcome = Resolved 'a | Rejected jsval

text \<open>
  \<^verbatim>\<open>loadUser\<close>. The argument \<open>me\<close> is how \<^verbatim>\<open>getMe()\<close> ends if it is called; a fulfilled
  call carries \<^verbatim>\<open>response.data.data\<close>.
\<close>

definition loadUser :: "'u outcome \<Rightarrow> 'u world \<Rightarrow> 'u world" where
  "loadUser me w =
     (let token = divine_token w;
          w1 = (if token_truthy token then
                  (let w2 = api_call getMe_request w in
                   case me of
                     Resolved u \<Rightarrow> setUser (Some u) w2
                   | Rejected err \<Rightarrow> setUser None (removeItem w2))
                else w)
      in setIsLoading False w1)"

record login_result =
  success :: bool
  error :: "jsval option"

text \<open>
  \<^verbatim>\<open>login\<close> and \<^verbatim>\<open>signup\<close>. A fulfilled call carries the \<^verbatim>\<open>token\<close> and \<^verbatim>\<open>user\<close> fields the
  handler destructures from \<^verbatim>\<open>response.data\<close>. \<^verbatim>\<open>getApiErrorMessage\<close> runs inside the
  \<^verbatim>\<open>catch\<close> block, so an exception it raises leaves the function.
\<close>

definition login ::
  "(string \<times> 'u) outcome \<Rightarrow> string \<Rightarrow> string \<Rightarrow> 'u world \<Rightarrow> (exn + login_result) \<times> 'u world" where
  "login out email password w =
     (let w = api_call (loginUser_request email password) w in
      case out of
        Resolved (token, loggedInUser) \<Rightarrow>
          (let w = setItem token w;
               w = setUser (Some loggedInUser) w
           in (Inr \<lparr>success = True, error = None\<rparr>, w))
      | Rejected err \<Rightarrow>
          (bindE (getApiErrorMessage err) (\<lambda>msg. Inr \<lparr>success = False, error = Some msg\<rparr>), w))"

definition signup ::
  "(string \<times> 'u) outcome \<Rightarrow> string \<Rightarrow> string \<Rightarrow> string \<Rightarrow> string \<Rightarrow> 'u world
     \<Rightarrow> (exn + login_result) \<times> 'u world" where
  "signup out name mobile email password w =
     (let w = api_call (registerUser_request name email mobile password) w in
      case out of
        Resolved (token, newUser) \<Rightarrow>
          (let w = setItem token w;
               w = setUser (Some newUser) w
           in (Inr \<lparr>success = True, error = None\<rparr>, w))
      | Rejected err \<Rightarrow>
          (bindE (getApiErrorMessage err) (\<lambda>msg. Inr \<lparr>success = False, error = Some msg\<rparr>), w))"

definition logout :: "'u world \<Rightarrow> 'u world" where
  "logout w = setUser None (removeItem w)"

section \<open>Regular expressions\<close>

text \<open>
  The patterns of \<^verbatim>\<open>LoginModal.tsx\<close> are anchored at both ends (\<^verbatim>\<open>^...$\<close>, no flags) and use
  character classes, concatenation, \<^verbatim>\<open>?\<close>, \<^verbatim>\<open>*\<close>, \<^verbatim>\<open>+\<close> and bounded repetition only, so
  \<^verbatim>\<open>re.test(s)\<close> holds precisely when the whole string belongs to the pattern's language. The
  language is decided with partial derivatives. A class is a list of inclusive code-unit ranges.
\<close>

datatype regex =
    Nothing
  | Eps
  | Cls "(char \<times> char) list"
  | Seq regex regex
  | Alt regex regex
  | Star regex

definition in_class :: "char \<Rightarrow> (char \<times> char) list \<Rightarrow> bool" where
  "in_class c rs =
     list_ex (\<lambda>(lo, hi). (of_char lo :: nat) \<le> of_char c \<and> (of_char c :: nat) \<le> of_char hi) rs"

fun nullable :: "regex \<Rightarrow> bool" where
  "nullable Nothing = False"
| "nullable Eps = True"
| "nullable (Cls rs) = False"
| "nullable (Seq r s) = (nullable r \<and> nullable s)"
| "nullable (Alt r s) = (nullable r \<or> nullable s)"
| "nullable (Star r) = True"

text \<open>
  The partial derivatives of a pattern by a character: the patterns for what may follow
  that character. A string is matched by keeping the list of patterns still possible,
  without duplicates, and asking at the end whether one of them accepts the empty string.
\<close>

fun pderiv :: "char \<Rightarrow> regex \<Rightarrow> regex list" where
  "pderiv c Nothing = []"
| "pderiv c Eps = []"
| "pderiv c (Cls rs) = (if in_class c rs then [Eps] else [])"
| "pderiv c (Seq r s) =
     map (\<lambda>r'. Seq r' s) (pderiv c r) @ (if nullable r then pderiv c s else [])"
| "pderiv c (Alt r s) = pderiv c r @ pderiv c s"
| "pderiv c (Star r) = map (\<lambda>r'. Seq r' (Star r)) (pderiv c r)"

definition step :: "char \<Rightarrow> regex list \<Rightarrow> regex list" where
  "step c rs = remdups (concat (map (pderiv c) rs))"

fun steps :: "regex list \<Rightarrow> string \<Rightarrow> regex list" where
  "steps rs [] = rs"
| "steps rs (c # cs) = steps (step c rs) cs"

definition test :: "regex \<Rightarrow> string \<Rightarrow> bool" where
  "test r s = list_ex nullable (steps [r] s)"

text \<open>
  What it means for a whole string to match a pattern, stated without reference to the
  matcher above; \<open>test_iff_matches\<close> below shows that \<open>test\<close> decides it.
\<close>

inductive matches :: "regex \<Rightarrow> string \<Rightarrow> bool" where
  m_eps: "matches Eps []"
| m_cls: "in_class c rs \<Longrightarrow> matches (Cls rs) [c]"
| m_seq: "matches r u \<Longrightarrow> matches s v \<Longrightarrow> matches (Seq r s) (u @ v)"
| m_alt1: "matches r u \<Longrightarrow> matches (Alt r s) u"
| m_alt2: "matches s u \<Longrightarrow> matches (Alt r s) u"
| m_star0: "matches (Star r) []"
| m_star: "matches r u \<Longrightarrow> matches (Star r) v \<Longrightarrow> matches (Star r) (u @ v)"

definition one_or_more :: "regex \<Rightarrow> regex" where
  "one_or_more r = Seq r (Star r)"

definition optional :: "regex \<Rightarrow> regex" where
  "optional r = Alt r Eps"

fun exactly :: "nat \<Rightarrow> regex \<Rightarrow> regex" where
  "exactly 0 r = Eps"
| "exactly (Suc n) r = Seq r (exactly n r)"

text \<open>\<^verbatim>\<open>\w\<close> is \<^verbatim>\<open>[A-Za-z0-9_]\<close> and \<^verbatim>\<open>\d\<close> is \<^verbatim>\<open>[0-9]\<close> (no unicode flag).\<close>

definition word_char :: regex where
  "word_char = Cls [(CHR ''A'', CHR ''Z''), (CHR ''a'', CHR ''z''), (CHR ''0'', CHR ''9''),
               (CHR ''_'', CHR ''_'')]"

definition digit :: regex where
  "digit = Cls [(CHR ''0'', CHR ''9'')]"

definition lit :: "char \<Rightarrow> regex" where
  "lit c = Cls [(c, c)]"

text \<open>\<^verbatim>\<open>[\.-]\<close>\<close>

definition dot_or_dash :: regex where
  "dot_or_dash = Cls [(CHR ''.'', CHR ''.''), (CHR ''-'', CHR ''-'')]"

text \<open>\<^verbatim>\<open>/^\w+([\.-]?\w+)*@\w+([\.-]?\w+)*(\.\w{2,3})+$/\<close>\<close>

definition EMAIL_RE :: regex where
  "EMAIL_RE =
     Seq (one_or_more word_char)
    (Seq (Star (Seq (optional dot_or_dash) (one_or_more word_char)))
    (Seq (lit CHR ''@'')
    (Seq (one_or_more word_char)
    (Seq (Star (Seq (optional dot_or_dash) (one_or_more word_char)))
         (one_or_more (Seq (lit CHR ''.'') (Seq word_char (Seq word_char (optional word_char)))))))))"

text \<open>\<^verbatim>\<open>/^[6-9]\d{9}$/\<close>\<close>

definition MOBILE_RE :: regex where
  "MOBILE_RE = Seq (Cls [(CHR ''6'', CHR ''9'')]) (exactly 9 digit)"

text \<open>
  \<^verbatim>\<open>String.prototype.trim\<close>: white space and line terminators are removed at both ends. Among
  the code units 0..255 these are TAB, LF, VT, FF, CR, SPACE and NBSP.
\<close>

definition is_space :: "char \<Rightarrow> bool" where
  "is_space c = List.member [9, 10, 11, 12, 13, 32, 160 :: nat] (of_char c)"

definition trim :: "string \<Rightarrow> string" where
  "trim s = rev (dropWhile is_space (rev (dropWhile is_space s)))"

section \<open>Auth UI flow (\<^verbatim>\<open>LoginModal\<close>)\<close>

datatype view = Login | Signup | ForgotPassword | ResetSent

text \<open>
  The component's state cells. \<^verbatim>\<open>validationErrors\<close> is a \<^verbatim>\<open>Record<string, string>\<close>: an
  association list with distinct keys in insertion order, as \<^verbatim>\<open>Object.keys\<close> lists them.
  \<^verbatim>\<open>formError\<close> receives \<^verbatim>\<open>result.error || t(...)\<close>, so it holds a JavaScript value.
\<close>

record modal =
  view :: view
  loginIdentifier :: string
  name :: string
  email :: string
  mobile :: string
  resetEmail :: string
  password :: string
  formError :: jsval
  validationErrors :: "(string \<times> string) list"
  isSubmitting :: bool

text \<open>The state of a freshly mounted modal.\<close>

definition mounted :: modal where
  "mounted = \<lparr>view = Login, loginIdentifier = [], name = [], email = [], mobile = [],
              resetEmail = [], password = [], formError = JStr [], validationErrors = [],
              isSubmitting = False\<rparr>"

text \<open>
  \<^verbatim>\<open>validate\<close>: builds the error record for the current view, stores it with
  \<^verbatim>\<open>setValidationErrors\<close> and returns whether it has no keys.
\<close>

definition validate :: "modal \<Rightarrow> bool \<times> modal" where
  "validate m =
     (let errors = [];
          errors =
            (if view m = Login then
               (let errors =
                      (if trim (loginIdentifier m) = [] then
                         AList.update ''loginIdentifier''
                           ''Please enter your email or mobile number.'' errors
                       else if \<not> test EMAIL_RE (loginIdentifier m)
                               \<and> \<not> test MOBILE_RE (loginIdentifier m) then
                         AList.update ''loginIdentifier''
                           ''Please enter a valid email or 10-digit mobile number.'' errors
                       else errors)
                in if length (password m) < 6 then
                     AList.update ''password''
                       ''Password must be at least 6 characters long.'' errors
                   else errors)
             else errors);
          errors =
            (if view m = Signup then
               (let errors =
                      (if length (trim (name m)) < 3 then
                         AList.update ''name'' ''Full name must be at least 3 characters.'' errors
                       else errors);
                    errors =
                      (if \<not> test EMAIL_RE (email m) then
                         AList.update ''email'' ''Please enter a valid email address.'' errors
                       else errors);
                    errors =
                      (if \<not> test MOBILE_RE (mobile m) then
                         AList.update ''mobile''
                           ''Please enter a valid 10-digit Indian mobile number.'' errors
                       else errors)
                in if length (password m) < 6 then
                     AList.update ''password''
                       ''Password must be at least 6 characters long.'' errors
                   else errors)
             else errors);
          errors =
            (if view m = ForgotPassword then
               (if \<not> test EMAIL_RE (resetEmail m) then
                  AList.update ''resetEmail'' ''Please enter a valid email address.'' errors
                else errors)
             else errors)
      in (length (map fst errors) = 0, m\<lparr>validationErrors := errors\<rparr>))"

text \<open>
  What a submit handler leaves behind: the modal's state, the session store, the argument
  \<^verbatim>\<open>onLoginSuccess\<close> was called with (\<open>None\<close> when it was not called), and the exception
  that ended the handler, if one did.
\<close>

record 'u submitted =
  modal_after :: modal
  world_after :: "'u world"
  onLoginSuccess :: "'u option"
  thrown :: "exn option"

text \<open>Reading the optional \<^verbatim>\<open>error\<close> field of a result: absent reads as \<^verbatim>\<open>undefined\<close>.\<close>

definition error_field :: "login_result \<Rightarrow> jsval" where
  "error_field result = (case error result of None \<Rightarrow> JUndefined | Some v \<Rightarrow> v)"

text \<open>
  \<^verbatim>\<open>handleLogin\<close> and \<^verbatim>\<open>handleSignup\<close>. The arguments are what the handler's closure holds:
  the translation function \<^verbatim>\<open>t\<close>, the \<^verbatim>\<open>user\<close> read from the context when the component
  rendered (\<open>ctxUser\<close>), and the state cells \<open>m\<close> of that render; then how the endpoint
  answers, and the session store at the time of the call. An exception of the awaited
  transition ends the handler where it stands.
\<close>

definition handleLogin ::
  "(string \<Rightarrow> string) \<Rightarrow> 'u option \<Rightarrow> (string \<times> 'u) outcome \<Rightarrow> modal \<Rightarrow> 'u world \<Rightarrow> 'u submitted" where
  "handleLogin t ctxUser out m w =
     (let m0 = m\<lparr>formError := JStr []\<rparr>;
          (valid, m1) = validate m0
      in
      if \<not> valid then
        \<lparr>modal_after = m1, world_after = w, onLoginSuccess = None, thrown = None\<rparr>
      else
        (let m2 = m1\<lparr>isSubmitting := True\<rparr>;
             (awaited, w') = login out (loginIdentifier m) (password m) w
         in
         case awaited of
           Inl ex \<Rightarrow>
             \<lparr>modal_after = m2, world_after = w', onLoginSuccess = None, thrown = Some ex\<rparr>
         | Inr result \<Rightarrow>
             (let m3 = m2\<lparr>isSubmitting := False\<rparr> in
              if success result \<and> ctxUser \<noteq> None then
                \<lparr>modal_after = m3, world_after = w', onLoginSuccess = ctxUser, thrown = None\<rparr>
              else
                \<lparr>modal_after =
                   m3\<lparr>formError :=
                        js_or (error_field result) (JStr (t ''loginModal.invalidCredentials''))\<rparr>,
                 world_after = w', onLoginSuccess = None, thrown = None\<rparr>)))"

definition handleSignup ::
  "(string \<Rightarrow> string) \<Rightarrow> 'u option \<Rightarrow> (string \<times> 'u) outcome \<Rightarrow> modal \<Rightarrow> 'u world \<Rightarrow> 'u submitted" where
  "handleSignup t ctxUser out m w =
     (let m0 = m\<lparr>formError := JStr []\<rparr>;
          (valid, m1) = validate m0
      in
      if \<not> valid then
        \<lparr>modal_after = m1, world_after = w, onLoginSuccess = None, thrown = None\<rparr>
      else
        (let m2 = m1\<lparr>isSubmitting := True\<rparr>;
             (awaited, w') = signup out (name m) (mobile m) (email m) (password m) w
         in
         case awaited of
           Inl ex \<Rightarrow>
             \<lparr>modal_after = m2, world_after = w', onLoginSuccess = None, thrown = Some ex\<rparr>
         | Inr result \<Rightarrow>
             (let m3 = m2\<lparr>isSubmitting := False\<rparr> in
              if success result \<and> ctxUser \<noteq> None then
                \<lparr>modal_after = m3, world_after = w', onLoginSuccess = ctxUser, thrown = None\<rparr>
              else
                \<lparr>modal_after =
                   m3\<lparr>formError :=
                        js_or (error_field result) (JStr (t ''loginModal.error.generic''))\<rparr>,
                 world_after = w', onLoginSuccess = None, thrown = None\<rparr>)))"

text \<open>
  A render of the modal inside the provider reads \<^verbatim>\<open>user\<close> from the context, so the
  handlers it creates hold the store's user of that moment.
\<close>

definition submitLogin ::
  "(string \<Rightarrow> string) \<Rightarrow> (string \<times> 'u) outcome \<Rightarrow> modal \<Rightarrow> 'u world \<Rightarrow> 'u submitted" where
  "submitLogin t out m w = handleLogin t (user w) out m w"

definition submitSignup ::
  "(string \<Rightarrow> string) \<Rightarrow> (string \<times> 'u) outcome \<Rightarrow> modal \<Rightarrow> 'u world \<Rightarrow> 'u submitted" where
  "submitSignup t out m w = handleSignup t (user w) out m w"

text \<open>
  \<^verbatim>\<open>handlePasswordReset\<close>: the second component tells whether the one-second timer was
  started; \<open>resetTimer\<close> is the timer's callback.
\<close>

definition handlePasswordReset :: "modal \<Rightarrow> modal \<times> bool" where
  "handlePasswordReset m =
     (let (valid, m1) = validate (m\<lparr>formError := JStr []\<rparr>) in
      if \<not> valid then (m1, False) else (m1\<lparr>isSubmitting := True\<rparr>, True))"

definition resetTimer :: "modal \<Rightarrow> modal" where
  "resetTimer m = m\<lparr>isSubmitting := False, view := ResetSent\<rparr>"

text \<open>\<^verbatim>\<open>switchTo(targetView)\<close>; the call sites pass login, signup and forgotPassword.\<close>

definition switchTo :: "view \<Rightarrow> modal \<Rightarrow> modal" where
  "switchTo targetView m = m\<lparr>formError := JStr [], validationErrors := [], view := targetView\<rparr>"

text \<open>
  The input elements each view renders: the element's id, its \<^verbatim>\<open>value\<close> attribute and its
  \<^verbatim>\<open>onChange\<close> handler applied to the text typed.
\<close>

type_synonym input = "string \<times> string \<times> (string \<Rightarrow> modal \<Rightarrow> modal)"

definition renderLogin :: "modal \<Rightarrow> input list" where
  "renderLogin m =
     [(''login-identifier'', loginIdentifier m, \<lambda>v s. s\<lparr>loginIdentifier := v\<rparr>),
      (''password-login'', password m, \<lambda>v s. s\<lparr>password := v\<rparr>)]"

definition renderSignup :: "modal \<Rightarrow> input list" where
  "renderSignup m =
     [(''name'', name m, \<lambda>v s. s\<lparr>name := v\<rparr>),
      (''email-signup'', email m, \<lambda>v s. s\<lparr>email := v\<rparr>),
      (''mobile'', mobile m, \<lambda>v s. s\<lparr>mobile := v\<rparr>),
      (''password-signup'', password m, \<lambda>v s. s\<lparr>password := v\<rparr>)]"

definition renderForgotPassword :: "modal \<Rightarrow> input list" where
  "renderForgotPassword m = [(''reset-email'', resetEmail m, \<lambda>v s. s\<lparr>resetEmail := v\<rparr>)]"

definition renderResetSent :: "modal \<Rightarrow> input list" where
  "renderResetSent m = []"

definition renderContent :: "modal \<Rightarrow> input list" where
  "renderContent m =
     (case view m of
        Login \<Rightarrow> renderLogin m
      | Signup \<Rightarrow> renderSignup m
      | ForgotPassword \<Rightarrow> renderForgotPassword m
      | ResetSent \<Rightarrow> renderResetSent m)"

text \<open>The value an input of the current view shows, and typing into it.\<close>

definition shown :: "string \<Rightarrow> modal \<Rightarrow> string option" where
  "shown ident m = map_option fst (map_of (renderContent m) ident)"

definition typeInto :: "string \<Rightarrow> string \<Rightarrow> modal \<Rightarrow> modal" where
  "typeInto ident v m =
     (case map_of (renderContent m) ident of None \<Rightarrow> m | Some (_, onChange) \<Rightarrow> onChange v m)"

text \<open>
  What a user can do between submissions: type into an input or follow a link. The links a
  view offers are some of the switches; the properties below hold for all of them.
\<close>

datatype action = Type string string | Switch view

fun act :: "action \<Rightarrow> modal \<Rightarrow> modal" where
  "act (Type ident v) m = typeInto ident v m"
| "act (Switch targetView) m = switchTo targetView m"

fun interact :: "action list \<Rightarrow> modal \<Rightarrow> modal" where
  "interact [] m = m"
| "interact (a # as) m = interact as (act a m)"

section \<open>Sample inputs\<close>

text \<open>The rejection Axios produces for a 401 answer of the backend.\<close>

definition bad_credentials :: jsval where
  "bad_credentials =
     JObj [(''isAxiosError'', JBool True), (''message'', JStr ''Request failed with status code 401''),
           (''request'', JObj []),
           (''response'', JObj [(''status'', JNum 401), (''statusText'', JStr ''Unauthorized''),
                                (''data'', JObj [(''success'', JBool False),
                                                 (''message'', JStr ''Invalid credentials'')])])]"

text \<open>A filled-in login form, a filled-in signup form, and the store of a visitor who is not logged in.\<close>

definition login_form :: modal where
  "login_form = mounted\<lparr>loginIdentifier := ''user@example.com'', password := ''secret1''\<rparr>"

definition signup_form :: modal where
  "signup_form = mounted\<lparr>view := Signup, name := ''Asha Rao'', email := ''user@example.com'',
                         mobile := ''9876543210'', password := ''secret1''\<rparr>"

definition anonymous :: "'u world" where
  "anonymous = setIsLoading False (initial None)"

section \<open>Properties of the error normalisation\<close>

lemma get_prop_not_nullish: "\<not> nullish x \<Longrightarrow> get_prop x k = Inr (own_prop x k)"
  by (simp add: get_prop_def)

lemma get_prop_nullish: "nullish x \<Longrightarrow> get_prop x k = Inl TypeError"
  by (simp add: get_prop_def)

lemma truthy_not_nullish: "truthy x \<Longrightarrow> \<not> nullish x"
  by (cases x) simp_all

lemma isObject_not_nullish: "isObject x \<Longrightarrow> \<not> nullish x"
  by (cases x) simp_all

lemma isAxiosError_not_nullish: "isAxiosError x \<Longrightarrow> \<not> nullish x"
  by (simp add: isAxiosError_def isObject_not_nullish)

lemma truthy_js_or: "truthy b \<Longrightarrow> truthy (js_or a b)"
  by (simp add: js_or_def)

text \<open>Every modelled number is an integer that JavaScript holds exactly and prints in digits.\<close>

lemma number_range: "- (2 ^ 53) \<le> sint (n :: 54 word) \<and> sint n < 2 ^ 53"
  using sint_ge [of n] sint_lt [of n] by simp

lemma to_string_printable: "printable x \<Longrightarrow> \<exists>s. to_string x = Inr s"
  by (cases x) simp_all

lemma to_string_not_printable: "\<not> printable x \<Longrightarrow> to_string x = Inl TypeError"
  by (cases x) simp_all

text \<open>The three ways through the function.\<close>

lemma getApiErrorMessage_response:
  assumes "isAxiosError e" and "truthy (own_prop e ''response'')"
  shows "getApiErrorMessage e =
           (if truthy (opt_prop (own_prop (own_prop e ''response'') ''data'') ''message'')
            then Inr (opt_prop (own_prop (own_prop e ''response'') ''data'') ''message'')
            else
              bindE (to_string (own_prop (own_prop e ''response'') ''status'')) (\<lambda>status_string.
              bindE (to_string (own_prop (own_prop e ''response'') ''statusText''))
                (\<lambda>statusText_string.
              Inr (JStr (''Error: '' @ status_string @ '' - '' @ statusText_string)))))"
  using assms
  by (simp add: getApiErrorMessage_def Let_def get_prop_not_nullish
      isAxiosError_not_nullish truthy_not_nullish)

lemma getApiErrorMessage_no_response:
  assumes "isAxiosError e" and "\<not> truthy (own_prop e ''response'')"
    and "truthy (own_prop e ''request'')"
  shows "getApiErrorMessage e = Inr (JStr NO_RESPONSE)"
  using assms
  by (simp add: getApiErrorMessage_def get_prop_not_nullish isAxiosError_not_nullish)

lemma getApiErrorMessage_other:
  assumes "\<not> nullish e"
    and "\<not> (isAxiosError e \<and> (truthy (own_prop e ''response'') \<or> truthy (own_prop e ''request'')))"
  shows "getApiErrorMessage e = Inr (js_or (own_prop e ''message'') (JStr UNEXPECTED))"
  using assms
  by (auto simp add: getApiErrorMessage_def Let_def get_prop_not_nullish isAxiosError_not_nullish)

text \<open>The two ways out of it by an exception, and no other.\<close>

lemma getApiErrorMessage_nullish:
  assumes "nullish e"
  shows "getApiErrorMessage e = Inl TypeError"
  using assms isAxiosError_not_nullish [of e]
  by (auto simp add: getApiErrorMessage_def Let_def get_prop_nullish)

lemma getApiErrorMessage_not_printable:
  assumes "synthesizes e" and "\<not> status_printable e"
  shows "getApiErrorMessage e = Inl TypeError"
proof -
  from assms(1) have ax: "isAxiosError e" "truthy (own_prop e ''response'')"
    and no_msg: "\<not> truthy (opt_prop (own_prop (own_prop e ''response'') ''data'') ''message'')"
    by (simp_all add: synthesizes_def)
  show ?thesis
  proof (cases "printable (own_prop (own_prop e ''response'') ''status'')")
    case True
    then obtain s where "to_string (own_prop (own_prop e ''response'') ''status'') = Inr s"
      using to_string_printable by blast
    moreover from True assms(2)
    have "to_string (own_prop (own_prop e ''response'') ''statusText'') = Inl TypeError"
      by (simp add: status_printable_def to_string_not_printable)
    ultimately show ?thesis
      using no_msg by (simp add: getApiErrorMessage_response [OF ax])
  next
    case False
    then have "to_string (own_prop (own_prop e ''response'') ''status'') = Inl TypeError"
      by (rule to_string_not_printable)
    then show ?thesis
      using no_msg by (simp add: getApiErrorMessage_response [OF ax])
  qed
qed

lemma getApiErrorMessage_synthesized:
  assumes "synthesizes e" and "status_printable e"
  shows "\<exists>s t. to_string (own_prop (own_prop e ''response'') ''status'') = Inr s
           \<and> to_string (own_prop (own_prop e ''response'') ''statusText'') = Inr t
           \<and> getApiErrorMessage e = Inr (JStr (''Error: '' @ s @ '' - '' @ t))"
proof -
  from assms(1) have ax: "isAxiosError e" "truthy (own_prop e ''response'')"
    and no_msg: "\<not> truthy (opt_prop (own_prop (own_prop e ''response'') ''data'') ''message'')"
    by (simp_all add: synthesizes_def)
  from assms(2) obtain s t
    where "to_string (own_prop (own_prop e ''response'') ''status'') = Inr s"
      and "to_string (own_prop (own_prop e ''response'') ''statusText'') = Inr t"
    using to_string_printable unfolding status_printable_def by blast
  then show ?thesis
    using no_msg by (simp add: getApiErrorMessage_response [OF ax])
qed

lemma getApiErrorMessage_total:
  assumes "\<not> nullish e" and "synthesizes e \<longrightarrow> status_printable e"
  shows "\<exists>v. getApiErrorMessage e = Inr v \<and> truthy v"
proof (cases "isAxiosError e \<and> truthy (own_prop e ''response'')")
  case response: True
  show ?thesis
  proof (cases "synthesizes e")
    case True
    with assms(2) getApiErrorMessage_synthesized [of e] show ?thesis
      by auto
  next
    case False
    with response show ?thesis
      by (simp add: getApiErrorMessage_response synthesizes_def)
  qed
next
  case no_resp: False
  show ?thesis
  proof (cases "isAxiosError e \<and> truthy (own_prop e ''request'')")
    case True
    with no_resp show ?thesis
      by (simp add: getApiErrorMessage_no_response NO_RESPONSE_def)
  next
    case False
    with no_resp assms(1) show ?thesis
      by (simp add: getApiErrorMessage_other truthy_js_or UNEXPECTED_def)
  qed
qed

text \<open>
  Claim C6. For an error object \<open>e\<close>, \<^verbatim>\<open>getApiErrorMessage\<close> returns
  \<^item> when \<open>e\<close> is an Axios error that carries a response: the \<^verbatim>\<open>message\<close> field of the
    response body when the body has one (a truthy one, as \<^verbatim>\<open>||\<close> tests it), and otherwise
    the string \<^verbatim>\<open>Error: <status> - <statusText>\<close>, made of the status and the status text
    as the template literal converts them;
  \<^item> when \<open>e\<close> is an Axios error without a response but with a request: the fixed
    no-response string;
  \<^item> in every other case: the error's own \<^verbatim>\<open>message\<close> when it has one, and otherwise the
    generic fallback string.
  In particular a 401 response with body \<^verbatim>\<open>{message: "Invalid credentials"}\<close> gives
  \<^verbatim>\<open>"Invalid credentials"\<close>, a request without response gives the no-response string, and
  a plain error with message \<^verbatim>\<open>"boom"\<close> gives \<^verbatim>\<open>"boom"\<close>.
\<close>

theorem getApiErrorMessage_cases:
  "(isAxiosError e \<and> truthy (own_prop e ''response'') \<longrightarrow>
      (let response = own_prop e ''response'';
           message = opt_prop (own_prop response ''data'') ''message''
       in getApiErrorMessage e =
            (if truthy message then Inr message
             else
               bindE (to_string (own_prop response ''status'')) (\<lambda>status_string.
               bindE (to_string (own_prop response ''statusText'')) (\<lambda>statusText_string.
               Inr (JStr (''Error: '' @ status_string @ '' - '' @ statusText_string)))))))
   \<and> (isAxiosError e \<and> \<not> truthy (own_prop e ''response'') \<and> truthy (own_prop e ''request'') \<longrightarrow>
        getApiErrorMessage e = Inr (JStr NO_RESPONSE))
   \<and> (\<not> nullish e
        \<and> \<not> (isAxiosError e \<and> (truthy (own_prop e ''response'') \<or> truthy (own_prop e ''request''))) \<longrightarrow>
        getApiErrorMessage e =
          Inr (if truthy (own_prop e ''message'') then own_prop e ''message'' else JStr UNEXPECTED))
   \<and> getApiErrorMessage
         (JObj [(''isAxiosError'', JBool True),
                (''response'', JObj [(''status'', JNum 401),
                                     (''data'', JObj [(''message'', JStr ''Invalid credentials'')])])])
       = Inr (JStr ''Invalid credentials'')
   \<and> getApiErrorMessage (JObj [(''isAxiosError'', JBool True), (''request'', JObj [])])
       = Inr (JStr NO_RESPONSE)
   \<and> getApiErrorMessage (JObj [(''message'', JStr ''boom'')]) = Inr (JStr ''boom'')"
proof (intro conjI impI)
  assume "isAxiosError e \<and> truthy (own_prop e ''response'')"
  then show "let response = own_prop e ''response'';
           message = opt_prop (own_prop response ''data'') ''message''
       in getApiErrorMessage e =
            (if truthy message then Inr message
             else
               bindE (to_string (own_prop response ''status'')) (\<lambda>status_string.
               bindE (to_string (own_prop response ''statusText'')) (\<lambda>statusText_string.
               Inr (JStr (''Error: '' @ status_string @ '' - '' @ statusText_string)))))"
    by (simp add: getApiErrorMessage_response Let_def)
next
  assume "isAxiosError e \<and> \<not> truthy (own_prop e ''response'') \<and> truthy (own_prop e ''request'')"
  then show "getApiErrorMessage e = Inr (JStr NO_RESPONSE)"
    by (simp add: getApiErrorMessage_no_response)
next
  assume "\<not> nullish e
        \<and> \<not> (isAxiosError e \<and> (truthy (own_prop e ''response'') \<or> truthy (own_prop e ''request'')))"
  then show "getApiErrorMessage e =
          Inr (if truthy (own_prop e ''message'') then own_prop e ''message'' else JStr UNEXPECTED)"
    using getApiErrorMessage_other [of e] by (simp add: js_or_def)
next
  show "getApiErrorMessage
         (JObj [(''isAxiosError'', JBool True),
                (''response'', JObj [(''status'', JNum 401),
                                     (''data'', JObj [(''message'', JStr ''Invalid credentials'')])])])
       = Inr (JStr ''Invalid credentials'')"
    by (simp add: getApiErrorMessage_response isAxiosError_def opt_prop_def)
next
  show "getApiErrorMessage (JObj [(''isAxiosError'', JBool True), (''request'', JObj [])])
       = Inr (JStr NO_RESPONSE)"
    by (simp add: getApiErrorMessage_no_response isAxiosError_def)
next
  show "getApiErrorMessage (JObj [(''message'', JStr ''boom'')]) = Inr (JStr ''boom'')"
    by (simp add: getApiErrorMessage_other isAxiosError_def js_or_def)
qed

text \<open>
  The theorem at a 404 response whose body is an HTML page (no \<^verbatim>\<open>message\<close> field): the
  status code and status text are put together.
\<close>

theorem getApiErrorMessage_cases_witness:
  "getApiErrorMessage
     (JObj [(''isAxiosError'', JBool True),
            (''response'', JObj [(''status'', JNum 404), (''statusText'', JStr ''Not Found''),
                                 (''data'', JStr ''<html></html>'')])])
   = Inr (JStr ''Error: 404 - Not Found'')"
  using getApiErrorMessage_cases
    [of "JObj [(''isAxiosError'', JBool True),
            (''response'', JObj [(''status'', JNum 404), (''statusText'', JStr ''Not Found''),
                                 (''data'', JStr ''<html></html>'')])]"]
  by (simp add: isAxiosError_def opt_prop_def Let_def show_int_def digit_char_def)

section \<open>Properties of the session store\<close>

lemmas store_defs = setItem_def removeItem_def setUser_def setIsLoading_def api_call_def
  isAuthenticated_def

text \<open>
  Claim C1. Startup runs \<^verbatim>\<open>loadUser\<close> on the initial state. For every content of storage
  and every way \<^verbatim>\<open>getMe\<close> can end:
  \<^item> with no token in storage (\<^verbatim>\<open>getItem\<close> gives \<^verbatim>\<open>null\<close>, or the empty string, which
    \<^verbatim>\<open>if (token)\<close> treats alike) the final state is Anonymous: no user, not loading, and no
    request was sent;
  \<^item> with a token in storage and \<^verbatim>\<open>getMe\<close> fulfilled, the final state is Authenticated
    with the fetched user, not loading, the token kept;
  \<^item> with a token in storage and \<^verbatim>\<open>getMe\<close> rejected with any value, the token is removed
    from storage and the final state is Anonymous, not loading;
  \<^item> in all cases \<^verbatim>\<open>setIsLoading\<close> is called exactly once, with \<^verbatim>\<open>false\<close>.
\<close>

theorem loadUser_startup:
  "(let w = loadUser me (initial stored) in
      (\<not> token_truthy stored \<longrightarrow>
         user w = None \<and> \<not> isAuthenticated w \<and> \<not> isLoading w \<and> divine_token w = stored
         \<and> trace w = [LoadingSet False])
    \<and> (token_truthy stored \<longrightarrow>
         (\<forall>u. me = Resolved u \<longrightarrow>
            user w = Some u \<and> isAuthenticated w \<and> \<not> isLoading w \<and> divine_token w = stored)
       \<and> (\<forall>err. me = Rejected err \<longrightarrow>
            divine_token w = None \<and> user w = None \<and> \<not> isAuthenticated w \<and> \<not> isLoading w)
       \<and> trace w = [Sent (request_interceptor stored getMe_request), LoadingSet False])
    \<and> [b. LoadingSet b \<leftarrow> trace w] = [False])"
  by (cases me) (simp_all add: loadUser_def initial_def store_defs Let_def)

text \<open>
  The theorem at an expired token (the call is rejected), at a good token (the call
  brings user 7) and at empty storage.
\<close>

theorem loadUser_startup_witness:
  "(let w = loadUser (Rejected (JObj [(''isAxiosError'', JBool True)])) (initial (Some ''expired'')) :: nat world
    in divine_token w = None \<and> user w = None \<and> \<not> isLoading w
       \<and> [b. LoadingSet b \<leftarrow> trace w] = [False])
   \<and> (let w = loadUser (Resolved (7::nat)) (initial (Some ''good''))
    in divine_token w = Some ''good'' \<and> user w = Some 7 \<and> \<not> isLoading w)
   \<and> (let w = loadUser (Resolved (7::nat)) (initial None)
    in divine_token w = None \<and> user w = None \<and> \<not> isLoading w)"
  using loadUser_startup [of "Rejected (JObj [(''isAxiosError'', JBool True)]) :: nat outcome" "Some ''expired''"]
    loadUser_startup [of "Resolved (7::nat)" "Some ''good''"]
    loadUser_startup [of "Resolved (7::nat)" "None"]
  by (simp add: Let_def)

lemma login_resolved:
  "login (Resolved (tok, u)) ident pw w =
     (Inr \<lparr>success = True, error = None\<rparr>,
      w\<lparr>divine_token := Some tok, user := Some u,
        trace := trace w @ [Sent (request_interceptor (divine_token w)
                                    (loginUser_request ident pw))]\<rparr>)"
  by (simp add: login_def store_defs Let_def)

lemma login_rejected:
  "login (Rejected err) ident pw w =
     (bindE (getApiErrorMessage err) (\<lambda>msg. Inr \<lparr>success = False, error = Some msg\<rparr>),
      w\<lparr>trace := trace w @ [Sent (request_interceptor (divine_token w)
                                    (loginUser_request ident pw))]\<rparr>)"
  by (simp add: login_def store_defs Let_def)

lemma signup_resolved:
  "signup (Resolved (tok, u)) nm mob em pw w =
     (Inr \<lparr>success = True, error = None\<rparr>,
      w\<lparr>divine_token := Some tok, user := Some u,
        trace := trace w @ [Sent (request_interceptor (divine_token w)
                                    (registerUser_request nm em mob pw))]\<rparr>)"
  by (simp add: signup_def store_defs Let_def)

lemma signup_rejected:
  "signup (Rejected err) nm mob em pw w =
     (bindE (getApiErrorMessage err) (\<lambda>msg. Inr \<lparr>success = False, error = Some msg\<rparr>),
      w\<lparr>trace := trace w @ [Sent (request_interceptor (divine_token w)
                                    (registerUser_request nm em mob pw))]\<rparr>)"
  by (simp add: signup_def store_defs Let_def)

text \<open>
  Claim C2. For every call of \<^verbatim>\<open>login\<close>, in any state of the store:
  \<^item> when the login endpoint answers with a token and a user, the token is written to
    storage, the user is stored (so the store is authenticated) and the result is
    \<^verbatim>\<open>{success: true}\<close> without an \<^verbatim>\<open>error\<close> field;
  \<^item> when the call is rejected, neither the stored token nor the stored user changes, and
    the result is \<^verbatim>\<open>{success: false, error}\<close> where \<^verbatim>\<open>error\<close> is what
    \<^verbatim>\<open>getApiErrorMessage\<close> makes of the rejection, a truthy value and so never the empty
    string. The rejection is an error object as the HTTP client produces: anything but
    \<^verbatim>\<open>null\<close> and \<^verbatim>\<open>undefined\<close>, and, where the status string has to be put together,
    with a status and a status text that can be converted to strings (the HTTP client
    sets a number and a string).
\<close>

theorem login_contract:
  "(let (result, w') = login (Resolved (tok, u)) ident pw w in
      result = Inr \<lparr>success = True, error = None\<rparr>
      \<and> divine_token w' = Some tok \<and> user w' = Some u \<and> isAuthenticated w')
   \<and> (let (result, w') = login (Rejected err) ident pw w in
      divine_token w' = divine_token w \<and> user w' = user w \<and> isLoading w' = isLoading w
      \<and> (\<forall>msg. getApiErrorMessage err = Inr msg \<longrightarrow>
             truthy msg \<and> msg \<noteq> JStr [] \<and> result = Inr \<lparr>success = False, error = Some msg\<rparr>)
      \<and> (\<not> nullish err \<and> (synthesizes err \<longrightarrow> status_printable err) \<longrightarrow>
           (\<exists>msg. getApiErrorMessage err = Inr msg \<and> truthy msg \<and> msg \<noteq> JStr []
                  \<and> result = Inr \<lparr>success = False, error = Some msg\<rparr>)))"
proof (intro conjI)
  show "let (result, w') = login (Resolved (tok, u)) ident pw w in
      result = Inr \<lparr>success = True, error = None\<rparr>
      \<and> divine_token w' = Some tok \<and> user w' = Some u \<and> isAuthenticated w'"
    by (simp add: login_resolved isAuthenticated_def)
next
  have frame: "divine_token (snd (login (Rejected err) ident pw w)) = divine_token w
      \<and> user (snd (login (Rejected err) ident pw w)) = user w
      \<and> isLoading (snd (login (Rejected err) ident pw w)) = isLoading w"
    by (simp add: login_rejected)
  have returned: "truthy msg \<and> msg \<noteq> JStr []
      \<and> fst (login (Rejected err) ident pw w) = Inr \<lparr>success = False, error = Some msg\<rparr>"
    if msg: "getApiErrorMessage err = Inr msg" for msg
  proof -
    have "\<not> nullish err"
      using msg getApiErrorMessage_nullish [of err] by auto
    moreover have "synthesizes err \<longrightarrow> status_printable err"
      using msg getApiErrorMessage_not_printable [of err] by auto
    ultimately have "truthy msg"
      using getApiErrorMessage_total [of err] msg by auto
    then have "msg \<noteq> JStr []" by auto
    with \<open>truthy msg\<close> msg show ?thesis
      by (simp add: login_rejected)
  qed
  have result: "\<exists>msg. getApiErrorMessage err = Inr msg \<and> truthy msg \<and> msg \<noteq> JStr []
      \<and> fst (login (Rejected err) ident pw w) = Inr \<lparr>success = False, error = Some msg\<rparr>"
    if "\<not> nullish err \<and> (synthesizes err \<longrightarrow> status_printable err)"
  proof -
    from that obtain msg where "getApiErrorMessage err = Inr msg"
      using getApiErrorMessage_total [of err] by blast
    with returned [of msg] show ?thesis by blast
  qed
  from frame returned result
  show "let (result, w') = login (Rejected err) ident pw w in
      divine_token w' = divine_token w \<and> user w' = user w \<and> isLoading w' = isLoading w
      \<and> (\<forall>msg. getApiErrorMessage err = Inr msg \<longrightarrow>
             truthy msg \<and> msg \<noteq> JStr [] \<and> result = Inr \<lparr>success = False, error = Some msg\<rparr>)
      \<and> (\<not> nullish err \<and> (synthesizes err \<longrightarrow> status_printable err) \<longrightarrow>
           (\<exists>msg. getApiErrorMessage err = Inr msg \<and> truthy msg \<and> msg \<noteq> JStr []
                  \<and> result = Inr \<lparr>success = False, error = Some msg\<rparr>))"
    by (simp add: case_prod_unfold)
qed

text \<open>
  The theorem at a wrong password: the backend answers 401 with a message, the result
  carries that message, and the store is as before but for the request in the trace.
\<close>

theorem login_contract_witness:
  "login (Rejected bad_credentials) ''a@b.co'' ''wrong-password'' (anonymous :: nat world)
   = (Inr \<lparr>success = False, error = Some (JStr ''Invalid credentials'')\<rparr>,
      \<lparr>divine_token = None, user = None, isLoading = False,
       trace = [LoadingSet False, Sent (loginUser_request ''a@b.co'' ''wrong-password'')]\<rparr>)"
proof -
  have msg: "getApiErrorMessage bad_credentials = Inr (JStr ''Invalid credentials'')"
    by (simp add: bad_credentials_def getApiErrorMessage_response isAxiosError_def opt_prop_def)
  have "\<not> nullish bad_credentials" and "\<not> synthesizes bad_credentials"
    by (simp_all add: bad_credentials_def synthesizes_def opt_prop_def)
  with login_contract [of _ _ "''a@b.co''" "''wrong-password''" "anonymous :: nat world"
      bad_credentials] msg
  show ?thesis
    by (simp add: case_prod_unfold login_rejected store_defs initial_def
        request_interceptor_def anonymous_def)
qed

text \<open>
  A rejection on which \<^verbatim>\<open>getApiErrorMessage\<close> throws, which the HTTP client does not
  produce, would make \<^verbatim>\<open>login\<close> throw with it, from inside the \<^verbatim>\<open>catch\<close> block; the
  store is left alone all the same.
\<close>

lemma login_rejected_throws:
  assumes "nullish err \<or> (synthesizes err \<and> \<not> status_printable err)"
  shows "fst (login (Rejected err) ident pw w) = Inl TypeError"
  using assms
  by (auto simp add: login_rejected getApiErrorMessage_nullish getApiErrorMessage_not_printable)

text \<open>
  Claim C9. \<^verbatim>\<open>logout\<close>, called in any state, removes the token from storage and clears
  the stored user, so the store is no longer authenticated. It sends nothing to the network
  (the trace is as before), touches nothing else, and is a plain total function: it neither
  awaits nor throws.
\<close>

theorem logout_clears:
  "(let w' = logout w in
      divine_token w' = None \<and> user w' = None \<and> \<not> isAuthenticated w'
      \<and> trace w' = trace w \<and> isLoading w' = isLoading w)"
  by (simp add: logout_def store_defs)

theorem logout_clears_witness:
  "logout \<lparr>divine_token = Some ''tok'', user = Some (7::nat), isLoading = False,
           trace = [LoadingSet False]\<rparr>
   = \<lparr>divine_token = None, user = None, isLoading = False, trace = [LoadingSet False]\<rparr>"
  using logout_clears [of "\<lparr>divine_token = Some ''tok'', user = Some (7::nat), isLoading = False,
           trace = [LoadingSet False]\<rparr>"]
  by (simp add: logout_def store_defs)

section \<open>Where the error normalisation throws\<close>

text \<open>
  Claim C7, as stated, fails. On \<^verbatim>\<open>null\<close> and on \<^verbatim>\<open>undefined\<close> the last line reads
  \<^verbatim>\<open>error.message\<close> and throws a TypeError. On an Axios error whose response has no
  \<^verbatim>\<open>message\<close> in its body and the status \<^verbatim>\<open>{toString: null}\<close>, the template literal cannot
  convert the status and throws a TypeError. And on an error whose \<^verbatim>\<open>message\<close> is the number
  42 the function returns that number, although it is declared to return a string.
\<close>

theorem getApiErrorMessage_null_throws:
  "getApiErrorMessage JNull = Inl TypeError
   \<and> getApiErrorMessage JUndefined = Inl TypeError
   \<and> getApiErrorMessage
         (JObj [(''isAxiosError'', JBool True),
                (''response'', JObj [(''status'', JObj [(''toString'', JNull)])])])
       = Inl TypeError
   \<and> getApiErrorMessage (JObj [(''message'', JNum 42)]) = Inr (JNum 42)"
  by (simp add: getApiErrorMessage_nullish getApiErrorMessage_response getApiErrorMessage_other
      isAxiosError_def opt_prop_def js_or_def)

text \<open>
  Claim C7, amended. \<^verbatim>\<open>getApiErrorMessage\<close> throws a TypeError on \<^verbatim>\<open>null\<close> and
  \<^verbatim>\<open>undefined\<close>, and when it has to put the status string together from a status or a
  status text that cannot be converted to a string. On every other value, objects or not,
  it does not throw; and what it returns is a non-empty string whenever the \<^verbatim>\<open>message\<close>
  field it looks at is absent, falsy or a string. (What it returns for a truthy
  \<^verbatim>\<open>message\<close> that is not a string is not part of this statement.)
\<close>

theorem getApiErrorMessage_throws_iff:
  "(nullish e \<or> (synthesizes e \<and> \<not> status_printable e) \<longrightarrow>
      getApiErrorMessage e = Inl TypeError)
   \<and> (\<not> nullish e \<and> (synthesizes e \<longrightarrow> status_printable e) \<longrightarrow>
        (\<exists>v. getApiErrorMessage e = Inr v
             \<and> ((\<forall>m. selected_message e = Some m \<longrightarrow> \<not> truthy m \<or> is_string m) \<longrightarrow>
                  (\<exists>s. v = JStr s \<and> s \<noteq> []))))"
proof (intro conjI impI)
  assume "nullish e \<or> (synthesizes e \<and> \<not> status_printable e)"
  then show "getApiErrorMessage e = Inl TypeError"
    using getApiErrorMessage_nullish [of e] getApiErrorMessage_not_printable [of e] by blast
next
  assume ok: "\<not> nullish e \<and> (synthesizes e \<longrightarrow> status_printable e)"
  then obtain v where v: "getApiErrorMessage e = Inr v" "truthy v"
    using getApiErrorMessage_total [of e] by blast
  have "\<exists>s. v = JStr s \<and> s \<noteq> []"
    if sel: "\<forall>m. selected_message e = Some m \<longrightarrow> \<not> truthy m \<or> is_string m"
  proof -
    have "is_string v"
    proof (cases "isAxiosError e \<and> truthy (own_prop e ''response'')")
      case response: True
      show ?thesis
      proof (cases "synthesizes e")
        case True
        with ok getApiErrorMessage_synthesized [of e] v(1) show ?thesis
          by auto
      next
        case False
        with response
        have msg: "truthy (opt_prop (own_prop (own_prop e ''response'') ''data'') ''message'')"
          by (simp add: synthesizes_def)
        with response v(1)
        have "v = opt_prop (own_prop (own_prop e ''response'') ''data'') ''message''"
          by (simp add: getApiErrorMessage_response)
        moreover from response
        have "selected_message e
                = Some (opt_prop (own_prop (own_prop e ''response'') ''data'') ''message'')"
          by (simp add: selected_message_def)
        ultimately show ?thesis
          using sel msg by auto
      qed
    next
      case no_resp: False
      show ?thesis
      proof (cases "isAxiosError e \<and> truthy (own_prop e ''request'')")
        case True
        with no_resp v(1) show ?thesis
          by (auto simp add: getApiErrorMessage_no_response)
      next
        case False
        with no_resp have "selected_message e = Some (own_prop e ''message'')"
          by (auto simp add: selected_message_def)
        with sel have "\<not> truthy (own_prop e ''message'') \<or> is_string (own_prop e ''message'')"
          by blast
        moreover from False no_resp ok v(1)
        have "v = js_or (own_prop e ''message'') (JStr UNEXPECTED)"
          by (auto simp add: getApiErrorMessage_other)
        ultimately show ?thesis
          by (auto simp add: js_or_def)
      qed
    qed
    with v(2) show ?thesis
      by (cases v) simp_all
  qed
  with v(1) show "\<exists>v. getApiErrorMessage e = Inr v
             \<and> ((\<forall>m. selected_message e = Some m \<longrightarrow> \<not> truthy m \<or> is_string m) \<longrightarrow>
                  (\<exists>s. v = JStr s \<and> s \<noteq> []))"
    by blast
qed

text \<open>
  The theorem at a string and at a number (neither is an object; both get the fallback
  string), at the rejection of a wrong password, and at \<^verbatim>\<open>null\<close>.
\<close>

theorem getApiErrorMessage_throws_iff_witness:
  "getApiErrorMessage (JStr ''offline'') = Inr (JStr UNEXPECTED)
   \<and> getApiErrorMessage (JNum 500) = Inr (JStr UNEXPECTED)
   \<and> (\<exists>s. getApiErrorMessage bad_credentials = Inr (JStr s) \<and> s \<noteq> [])
   \<and> getApiErrorMessage JNull = Inl TypeError"
proof -
  have "selected_message bad_credentials = Some (JStr ''Invalid credentials'')"
    and "\<not> synthesizes bad_credentials" and "\<not> nullish bad_credentials"
    by (simp_all add: bad_credentials_def selected_message_def synthesizes_def isAxiosError_def
        opt_prop_def)
  with getApiErrorMessage_throws_iff [of bad_credentials]
  have "\<exists>s. getApiErrorMessage bad_credentials = Inr (JStr s) \<and> s \<noteq> []"
    by auto
  moreover have "getApiErrorMessage (JStr ''offline'') = Inr (JStr UNEXPECTED)"
    "getApiErrorMessage (JNum 500) = Inr (JStr UNEXPECTED)"
    by (simp_all add: getApiErrorMessage_other isAxiosError_def js_or_def)
  moreover have "getApiErrorMessage JNull = Inl TypeError"
    using getApiErrorMessage_throws_iff [of JNull] by simp
  ultimately show ?thesis by blast
qed

section \<open>Properties of the request interceptors\<close>

text \<open>
  The interceptor of \<^verbatim>\<open>services/api.ts\<close> puts the stored token into the
  \<^verbatim>\<open>Authorization\<close> header of every request, whatever the caller had put there.
\<close>

lemma request_interceptor_bearer:
  "tok \<noteq> [] \<Longrightarrow>
     map_of (headers (request_interceptor (Some tok) config)) ''Authorization''
       = Some (''Bearer '' @ tok)"
  by (simp add: request_interceptor_def update_conv')

lemma api_call_bearer:
  assumes "divine_token w = Some tok" and "tok \<noteq> []"
  shows "\<exists>sent. trace (api_call config w) = trace w @ [Sent sent]
           \<and> map_of (headers sent) ''Authorization'' = Some (''Bearer '' @ tok)"
  using assms by (simp add: api_call_def request_interceptor_bearer)

lemma request_interceptor_no_token:
  "\<not> token_truthy stored \<Longrightarrow> request_interceptor stored config = config"
  by (cases stored) (simp_all add: request_interceptor_def)

text \<open>
  Claim C8. With the token \<^verbatim>\<open>abc123\<close> in storage, a \<^verbatim>\<open>GET /auth/me\<close> sent through the
  client of \<^verbatim>\<open>frontent/services/api.ts\<close> leaves without an \<^verbatim>\<open>Authorization\<close> header, while
  the same request through the client of \<^verbatim>\<open>services/api.ts\<close> carries
  \<^verbatim>\<open>Bearer abc123\<close>.
\<close>

theorem frontent_request_without_token:
  "map_of (headers (frontent_request_interceptor (Some ''abc123'') getMe_request)) ''Authorization''
     = None
   \<and> map_of (headers (request_interceptor (Some ''abc123'') getMe_request)) ''Authorization''
     = Some ''Bearer abc123''"
  by (simp add: frontent_request_interceptor_def request_interceptor_def getMe_request_def)

section \<open>The matcher decides the language of a pattern\<close>

inductive_cases matches_EpsE: "matches Eps w"
inductive_cases matches_ClsE: "matches (Cls rs) w"
inductive_cases matches_SeqE: "matches (Seq r s) w"
inductive_cases matches_AltE: "matches (Alt r s) w"

lemma matches_empty_nullable:
  assumes "matches r w" and "w = []"
  shows "nullable r"
  using assms by (induction rule: matches.induct) simp_all

lemma nullable_matches_empty: "nullable r \<Longrightarrow> matches r []"
proof (induction r)
  case (Seq r s)
  then have "matches r []" and "matches s []" by simp_all
  then have "matches (Seq r s) ([] @ [])" by (rule m_seq)
  then show ?case by simp
qed (auto intro: matches.intros)

lemma nullable_iff: "nullable r \<longleftrightarrow> matches r []"
  using matches_empty_nullable nullable_matches_empty by blast

lemma pderiv_sound:
  "r' \<in> set (pderiv c r) \<Longrightarrow> matches r' w \<Longrightarrow> matches r (c # w)"
proof (induction r arbitrary: r' w)
  case Nothing
  then show ?case by simp
next
  case Eps
  then show ?case by simp
next
  case (Cls rs)
  then have "in_class c rs" and "r' = Eps"
    by (simp_all split: if_splits)
  with Cls.prems(2) have "w = []"
    by (auto elim: matches_EpsE)
  with \<open>in_class c rs\<close> show ?case
    by (simp add: m_cls)
next
  case (Seq r s)
  from Seq.prems(1) consider
      (left) r1 where "r1 \<in> set (pderiv c r)" "r' = Seq r1 s"
    | (right) "nullable r" "r' \<in> set (pderiv c s)"
    by (auto split: if_splits)
  then show ?case
  proof cases
    case left
    with Seq.prems(2) obtain u v where w: "w = u @ v" "matches r1 u" "matches s v"
      by (auto elim: matches_SeqE)
    from Seq.IH(1) [OF left(1) w(2)] w(3) have "matches (Seq r s) ((c # u) @ v)"
      by (rule m_seq)
    with w(1) show ?thesis by simp
  next
    case right
    from right(1) have "matches r []" by (rule nullable_matches_empty)
    moreover from Seq.IH(2) [OF right(2) Seq.prems(2)] have "matches s (c # w)" .
    ultimately have "matches (Seq r s) ([] @ c # w)" by (rule m_seq)
    then show ?thesis by simp
  qed
next
  case (Alt r s)
  from Alt.prems(1) have "r' \<in> set (pderiv c r) \<or> r' \<in> set (pderiv c s)" by simp
  then show ?case
    using Alt.IH Alt.prems(2) by (auto intro: m_alt1 m_alt2)
next
  case (Star r)
  from Star.prems(1) obtain r1 where r1: "r1 \<in> set (pderiv c r)" "r' = Seq r1 (Star r)"
    by auto
  with Star.prems(2) obtain u v where w: "w = u @ v" "matches r1 u" "matches (Star r) v"
    by (auto elim: matches_SeqE)
  from Star.IH [OF r1(1) w(2)] w(3) have "matches (Star r) ((c # u) @ v)"
    by (rule m_star)
  with w(1) show ?case by simp
qed

lemma pderiv_complete:
  assumes "matches r x" and "x = c # w"
  shows "\<exists>r' \<in> set (pderiv c r). matches r' w"
  using assms
proof (induction arbitrary: w rule: matches.induct)
  case m_eps
  then show ?case by simp
next
  case (m_cls c' rs)
  then show ?case by (auto intro: matches.m_eps)
next
  case (m_seq r u s v)
  show ?case
  proof (cases u)
    case Nil
    with m_seq.prems have "v = c # w" by simp
    from m_seq.IH(2) [OF this] obtain s' where "s' \<in> set (pderiv c s)" "matches s' w"
      by blast
    moreover from m_seq.hyps(1) Nil have "nullable r"
      by (simp add: matches_empty_nullable)
    ultimately show ?thesis by auto
  next
    case (Cons a u')
    with m_seq.prems have "u = c # u'" and w: "w = u' @ v" by simp_all
    from m_seq.IH(1) [OF this(1)] obtain r' where r': "r' \<in> set (pderiv c r)" "matches r' u'"
      by blast
    from r'(2) m_seq.hyps(2) have "matches (Seq r' s) (u' @ v)" by (rule matches.m_seq)
    with r'(1) w show ?thesis by auto
  qed
next
  case (m_alt1 r u s)
  then show ?case by auto
next
  case (m_alt2 s u r)
  then show ?case by auto
next
  case (m_star0 r)
  then show ?case by simp
next
  case (m_star r u v)
  show ?case
  proof (cases u)
    case Nil
    with m_star.prems have "v = c # w" by simp
    from m_star.IH(2) [OF this] show ?thesis .
  next
    case (Cons a u')
    with m_star.prems have "u = c # u'" and w: "w = u' @ v" by simp_all
    from m_star.IH(1) [OF this(1)] obtain r' where r': "r' \<in> set (pderiv c r)" "matches r' u'"
      by blast
    from r'(2) m_star.hyps(2) have "matches (Seq r' (Star r)) (u' @ v)" by (rule matches.m_seq)
    with r'(1) w show ?thesis by auto
  qed
qed

lemma step_matches:
  "(\<exists>r' \<in> set (step c rs). matches r' w) \<longleftrightarrow> (\<exists>r \<in> set rs. matches r (c # w))"
proof
  assume "\<exists>r' \<in> set (step c rs). matches r' w"
  then obtain r r' where "r \<in> set rs" "r' \<in> set (pderiv c r)" "matches r' w"
    by (auto simp add: step_def)
  then show "\<exists>r \<in> set rs. matches r (c # w)"
    by (blast intro: pderiv_sound)
next
  assume "\<exists>r \<in> set rs. matches r (c # w)"
  then obtain r where r: "r \<in> set rs" "matches r (c # w)"
    by blast
  from pderiv_complete [OF r(2) refl] obtain r' where "r' \<in> set (pderiv c r)" "matches r' w"
    by blast
  with r(1) show "\<exists>r' \<in> set (step c rs). matches r' w"
    by (auto simp add: step_def)
qed

lemma steps_matches:
  "(\<exists>r' \<in> set (steps rs s). nullable r') \<longleftrightarrow> (\<exists>r \<in> set rs. matches r s)"
proof (induction s arbitrary: rs)
  case Nil
  show ?case by (simp add: nullable_iff)
next
  case (Cons c s)
  show ?case by (simp add: Cons.IH step_matches)
qed

text \<open>\<open>test r s\<close> holds precisely when the whole of \<open>s\<close> matches \<open>r\<close>.\<close>

lemma test_iff_matches: "test r s \<longleftrightarrow> matches r s"
  using steps_matches [of "[r]" s] by (simp add: test_def list_ex_iff)

section \<open>Properties of the validation\<close>

lemmas regex_defs = test_def step_def one_or_more_def optional_def word_char_def digit_def
  dot_or_dash_def lit_def in_class_def

lemma not_an_email: "\<not> test EMAIL_RE ''not-an-email-or-phone''"
  by (simp add: EMAIL_RE_def regex_defs)

lemma not_a_mobile: "\<not> test MOBILE_RE ''not-an-email-or-phone''"
  by (simp add: MOBILE_RE_def regex_defs)

lemma trim_not_an_email: "trim ''not-an-email-or-phone'' \<noteq> []"
  by (simp add: trim_def is_space_def)

lemma example_email: "test EMAIL_RE ''user@example.com''"
  by (simp add: EMAIL_RE_def regex_defs)

lemma trim_example_email: "trim ''user@example.com'' \<noteq> []"
  by (simp add: trim_def is_space_def)

lemma example_mobile: "test MOBILE_RE ''9876543210''"
  by (simp add: MOBILE_RE_def regex_defs eval_nat_numeral)

lemma short_mobile: "\<not> test MOBILE_RE ''12345''"
  by (simp add: MOBILE_RE_def regex_defs eval_nat_numeral)

text \<open>
  In the login view, the identifier \<^verbatim>\<open>not-an-email-or-phone\<close> always gets the second of
  the two identifier messages; a password error joins it when the password is short.
\<close>

lemma validate_login_identifier:
  assumes "view m = Login" and "loginIdentifier m = ''not-an-email-or-phone''"
  shows "validate m =
           (False,
            m\<lparr>validationErrors :=
                 (''loginIdentifier'', ''Please enter a valid email or 10-digit mobile number.'')
                 # (if length (password m) < 6
                    then [(''password'', ''Password must be at least 6 characters long.'')]
                    else [])\<rparr>)"
  using assms
  by (simp add: validate_def Let_def not_an_email not_a_mobile trim_not_an_email)

lemma validate_login_form:
  "validate (login_form\<lparr>formError := JStr []\<rparr>) = (True, login_form)"
  by (simp add: validate_def login_form_def mounted_def Let_def example_email trim_example_email)

lemma validate_signup_form:
  "validate (signup_form\<lparr>formError := JStr []\<rparr>) = (True, signup_form)"
  by (simp add: validate_def signup_form_def mounted_def Let_def example_email example_mobile
      trim_def is_space_def)

text \<open>
  Claim C4, as stated, fails: with the identifier \<^verbatim>\<open>not-an-email-or-phone\<close> and the
  password \<^verbatim>\<open>abc\<close>, validation produces two errors, one on the identifier and one on the
  password.
\<close>

theorem login_two_errors:
  "map fst (validationErrors (snd (validate
      (mounted\<lparr>loginIdentifier := ''not-an-email-or-phone'', password := ''abc''\<rparr>))))
   = [''loginIdentifier'', ''password'']"
  by (simp add: validate_login_identifier mounted_def)

text \<open>
  Claim C4, amended. For every login-view submission with the identifier
  \<^verbatim>\<open>not-an-email-or-phone\<close> and any password, validation puts the invalid-format error on the
  identifier field. It is the only error exactly when the password has at least six
  characters; a shorter password adds an error on the password field. In both cases the
  submission stops there: the session store is untouched, so no request is sent, the
  success callback is not called, and the submitting flag is not raised.
\<close>

theorem login_blocked_by_identifier:
  assumes "view m = Login" and "loginIdentifier m = ''not-an-email-or-phone''"
  shows "(let r = handleLogin t ctxUser out m w; errors = validationErrors (modal_after r) in
            map_of errors ''loginIdentifier''
              = Some ''Please enter a valid email or 10-digit mobile number.''
            \<and> (map fst errors = [''loginIdentifier''] \<longleftrightarrow> 6 \<le> length (password m))
            \<and> (length (password m) < 6 \<longrightarrow> map fst errors = [''loginIdentifier'', ''password''])
            \<and> world_after r = w \<and> onLoginSuccess r = None \<and> thrown r = None
            \<and> isSubmitting (modal_after r) = isSubmitting m)"
proof -
  have "view (m\<lparr>formError := JStr []\<rparr>) = Login"
    and "loginIdentifier (m\<lparr>formError := JStr []\<rparr>) = ''not-an-email-or-phone''"
    using assms by simp_all
  note v = validate_login_identifier [OF this]
  show ?thesis
    by (simp add: handleLogin_def v Let_def)
qed

text \<open>The theorem at a password of seven characters: one error, and an untouched store.\<close>

theorem login_blocked_by_identifier_witness:
  "(let r = handleLogin id None (Resolved (''tok'', 7::nat))
              (mounted\<lparr>loginIdentifier := ''not-an-email-or-phone'', password := ''secret1''\<rparr>)
              anonymous
    in map fst (validationErrors (modal_after r)) = [''loginIdentifier'']
       \<and> trace (world_after r) = [LoadingSet False])"
  using login_blocked_by_identifier
    [of "mounted\<lparr>loginIdentifier := ''not-an-email-or-phone'', password := ''secret1''\<rparr>"
        id None "Resolved (''tok'', 7::nat)" anonymous]
  by (simp add: mounted_def Let_def setIsLoading_def initial_def anonymous_def)

section \<open>Properties of the submit handlers\<close>

text \<open>
  After a successful transition the callback receives the \<^verbatim>\<open>user\<close> the handler's closure
  holds, whichever user the endpoint returned; when the closure holds \<^verbatim>\<open>null\<close> the
  callback is not called and the generic message becomes the form error.
\<close>

lemma handleLogin_resolved:
  assumes "validate (m\<lparr>formError := JStr []\<rparr>) = (True, m1)"
  shows "handleLogin t ctxUser (Resolved (tok, u)) m w =
           \<lparr>modal_after =
              (if ctxUser \<noteq> None then m1\<lparr>isSubmitting := False\<rparr>
               else m1\<lparr>isSubmitting := False,
                        formError := JStr (t ''loginModal.invalidCredentials'')\<rparr>),
            world_after = snd (login (Resolved (tok, u)) (loginIdentifier m) (password m) w),
            onLoginSuccess = ctxUser, thrown = None\<rparr>"
  using assms
  by (auto simp add: handleLogin_def login_resolved error_field_def js_or_def Let_def)

lemma handleSignup_resolved:
  assumes "validate (m\<lparr>formError := JStr []\<rparr>) = (True, m1)"
  shows "handleSignup t ctxUser (Resolved (tok, u)) m w =
           \<lparr>modal_after =
              (if ctxUser \<noteq> None then m1\<lparr>isSubmitting := False\<rparr>
               else m1\<lparr>isSubmitting := False,
                        formError := JStr (t ''loginModal.error.generic'')\<rparr>),
            world_after =
              snd (signup (Resolved (tok, u)) (name m) (mobile m) (email m) (password m) w),
            onLoginSuccess = ctxUser, thrown = None\<rparr>"
  using assms
  by (auto simp add: handleSignup_def signup_resolved error_field_def js_or_def Let_def)

lemma handleLogin_stale_user:
  assumes "fst (validate (m\<lparr>formError := JStr []\<rparr>))"
  shows "onLoginSuccess (handleLogin t ctxUser (Resolved (tok, u)) m w) = ctxUser"
proof -
  from assms obtain m1 where "validate (m\<lparr>formError := JStr []\<rparr>) = (True, m1)"
    by (cases "validate (m\<lparr>formError := JStr []\<rparr>)") simp
  then show ?thesis
    by (simp add: handleLogin_resolved)
qed

lemma handleSignup_stale_user:
  assumes "fst (validate (m\<lparr>formError := JStr []\<rparr>))"
  shows "onLoginSuccess (handleSignup t ctxUser (Resolved (tok, u)) m w) = ctxUser"
proof -
  from assms obtain m1 where "validate (m\<lparr>formError := JStr []\<rparr>) = (True, m1)"
    by (cases "validate (m\<lparr>formError := JStr []\<rparr>)") simp
  then show ?thesis
    by (simp add: handleSignup_resolved)
qed

text \<open>
  After a failed transition the form error is the normalised message, the submitting flag
  is down and the callback is not called.
\<close>

lemma handleLogin_failure:
  assumes "fst (validate (m\<lparr>formError := JStr []\<rparr>))" and "\<not> nullish err"
    and "synthesizes err \<longrightarrow> status_printable err"
  shows "\<exists>msg. getApiErrorMessage err = Inr msg
           \<and> formError (modal_after (handleLogin t ctxUser (Rejected err) m w)) = msg
           \<and> \<not> isSubmitting (modal_after (handleLogin t ctxUser (Rejected err) m w))
           \<and> onLoginSuccess (handleLogin t ctxUser (Rejected err) m w) = None"
proof -
  from assms(2,3) obtain msg where msg: "getApiErrorMessage err = Inr msg" "truthy msg"
    using getApiErrorMessage_total by blast
  with assms(1) show ?thesis
    by (simp add: handleLogin_def case_prod_unfold login_rejected error_field_def js_or_def
        Let_def)
qed

text \<open>
  Claim C3. A visitor who is not logged in submits a valid login form, and the login
  endpoint answers with a token and user 7. The store now holds user 7, but the handler
  does not call the success callback: it sets the form error to the invalid-credentials
  string. The same happens in \<^verbatim>\<open>handleSignup\<close>, with the generic error string. (The
  translation function is taken to return its key.)
\<close>

theorem submit_success_not_reported:
  "onLoginSuccess (submitLogin id (Resolved (''tok'', 7::nat)) login_form anonymous) = None
   \<and> formError (modal_after (submitLogin id (Resolved (''tok'', 7::nat)) login_form anonymous))
       = JStr ''loginModal.invalidCredentials''
   \<and> user (world_after (submitLogin id (Resolved (''tok'', 7::nat)) login_form anonymous)) = Some 7
   \<and> onLoginSuccess (submitSignup id (Resolved (''tok'', 7::nat)) signup_form anonymous) = None
   \<and> formError (modal_after (submitSignup id (Resolved (''tok'', 7::nat)) signup_form anonymous))
       = JStr ''loginModal.error.generic''
   \<and> user (world_after (submitSignup id (Resolved (''tok'', 7::nat)) signup_form anonymous)) = Some 7"
  by (simp add: submitLogin_def submitSignup_def
      handleLogin_resolved [OF validate_login_form] handleSignup_resolved [OF validate_signup_form]
      login_resolved signup_resolved anonymous_def initial_def setIsLoading_def)

section \<open>Properties of the view switches\<close>

lemma switchTo_fields:
  "loginIdentifier (switchTo v m) = loginIdentifier m \<and> name (switchTo v m) = name m
   \<and> email (switchTo v m) = email m \<and> mobile (switchTo v m) = mobile m
   \<and> resetEmail (switchTo v m) = resetEmail m \<and> password (switchTo v m) = password m
   \<and> isSubmitting (switchTo v m) = isSubmitting m"
  by (simp add: switchTo_def)

lemma switches_fields:
  "loginIdentifier (interact (map Switch vs) m) = loginIdentifier m
   \<and> name (interact (map Switch vs) m) = name m
   \<and> email (interact (map Switch vs) m) = email m
   \<and> mobile (interact (map Switch vs) m) = mobile m
   \<and> resetEmail (interact (map Switch vs) m) = resetEmail m
   \<and> password (interact (map Switch vs) m) = password m
   \<and> isSubmitting (interact (map Switch vs) m) = isSubmitting m"
proof (induction vs arbitrary: m)
  case Nil
  show ?case by simp
next
  case (Cons v vs)
  from Cons.IH [of "switchTo v m"] show ?case
    by (simp add: switchTo_fields)
qed

lemma switches_clear:
  "vs \<noteq> [] \<Longrightarrow>
     formError (interact (map Switch vs) m) = JStr []
     \<and> validationErrors (interact (map Switch vs) m) = []
     \<and> view (interact (map Switch vs) m) = last vs"
proof (induction vs arbitrary: m)
  case Nil
  then show ?case by simp
next
  case (Cons v vs)
  show ?case
  proof (cases vs)
    case Nil
    then show ?thesis by (simp add: switchTo_def)
  next
    case (Cons v' vs')
    with Cons.IH [of "switchTo v m"] show ?thesis by simp
  qed
qed

text \<open>
  Claim C5. After any sequence of one or more view switches (login to signup and back, for
  instance), from any state of the modal, the form error is the empty string, the
  validation-error record is empty, the view is the last target, and every input field
  holds what it held before.
\<close>

theorem switchTo_clears_errors_keeps_fields:
  assumes "vs \<noteq> []"
  shows "(let m' = interact (map Switch vs) m in
            formError m' = JStr [] \<and> validationErrors m' = [] \<and> view m' = last vs
            \<and> loginIdentifier m' = loginIdentifier m \<and> name m' = name m \<and> email m' = email m
            \<and> mobile m' = mobile m \<and> resetEmail m' = resetEmail m \<and> password m' = password m)"
  using switches_clear [OF assms, of m] switches_fields [of vs m]
  by (simp add: Let_def)

text \<open>
  The theorem at login, signup, login, starting after a failed login that left a form
  error and a password error.
\<close>

theorem switchTo_clears_errors_keeps_fields_witness:
  "interact [Switch Signup, Switch Login]
     (mounted\<lparr>loginIdentifier := ''nobody'', password := ''abc'',
              formError := JStr ''Invalid credentials'',
              validationErrors := [(''password'', ''Password must be at least 6 characters long.'')]\<rparr>)
   = mounted\<lparr>loginIdentifier := ''nobody'', password := ''abc''\<rparr>"
  using switchTo_clears_errors_keeps_fields [of "[Signup, Login]"
     "mounted\<lparr>loginIdentifier := ''nobody'', password := ''abc'',
              formError := JStr ''Invalid credentials'',
              validationErrors := [(''password'', ''Password must be at least 6 characters long.'')]\<rparr>"]
  by (simp add: switchTo_def mounted_def)

text \<open>
  The remaining change of view, to the reset-sent view when the timer of a validated
  password-reset submission fires, also shows no errors.
\<close>

lemma reset_sent_no_errors:
  assumes "handlePasswordReset m = (m1, True)"
  shows "formError (resetTimer m1) = JStr [] \<and> validationErrors (resetTimer m1) = []
         \<and> view (resetTimer m1) = ResetSent \<and> resetEmail (resetTimer m1) = resetEmail m"
  using assms
  by (auto simp add: handlePasswordReset_def resetTimer_def validate_def Let_def
      split: if_splits prod.splits)

text \<open>
  Claim C10. The password inputs of the login view and of the signup view show the same
  state cell and write the same state cell, and a view switch leaves that cell alone. So a
  password typed into the login view's input is, after any switches that end in the
  signup view, the value of the signup view's password input; and the other way round.
\<close>

theorem password_shared:
  "(view m = Login \<longrightarrow>
      shown ''password-login'' m = Some (password m)
      \<and> password (typeInto ''password-login'' p m) = p
      \<and> shown ''password-signup''
           (interact (Type ''password-login'' p # map Switch vs @ [Switch Signup]) m) = Some p)
   \<and> (view m = Signup \<longrightarrow>
      shown ''password-signup'' m = Some (password m)
      \<and> password (typeInto ''password-signup'' p m) = p
      \<and> shown ''password-login''
           (interact (Type ''password-signup'' p # map Switch vs @ [Switch Login]) m) = Some p)
   \<and> password (interact (map Switch vs) m) = password m"
proof -
  have shown_login: "shown ''password-login'' s = Some (password s)" if "view s = Login" for s
    using that by (simp add: shown_def renderContent_def renderLogin_def)
  have shown_signup: "shown ''password-signup'' s = Some (password s)" if "view s = Signup" for s
    using that by (simp add: shown_def renderContent_def renderSignup_def)
  have type_login: "password (typeInto ''password-login'' p s) = p" if "view s = Login" for s
    using that by (simp add: typeInto_def renderContent_def renderLogin_def)
  have type_signup: "password (typeInto ''password-signup'' p s) = p" if "view s = Signup" for s
    using that by (simp add: typeInto_def renderContent_def renderSignup_def)
  have after: "view (interact (map Switch (vs @ [v])) s) = v
      \<and> password (interact (map Switch (vs @ [v])) s) = password s" for v s
    using switches_clear [of "vs @ [v]" s] switches_fields [of "vs @ [v]" s] by simp
  show ?thesis
    using shown_login [of m] type_login [of m] shown_signup [of m] type_signup [of m]
      after [of Signup "typeInto ''password-login'' p m"]
      after [of Login "typeInto ''password-signup'' p m"]
      shown_signup [of "interact (map Switch (vs @ [Signup])) (typeInto ''password-login'' p m)"]
      shown_login [of "interact (map Switch (vs @ [Login])) (typeInto ''password-signup'' p m)"]
      switches_fields [of vs m]
    by simp
qed

text \<open>
  The theorem at a fresh modal (type into login, switch to signup) and at a modal in the
  signup view (type into signup, go to login, on to the forgot-password view and back).
\<close>

theorem password_shared_witness:
  "shown ''password-signup''
     (interact [Type ''password-login'' ''secret1'', Switch Signup] mounted) = Some ''secret1''
   \<and> shown ''password-login''
     (interact [Type ''password-signup'' ''hunter22'', Switch Login, Switch ForgotPassword,
                Switch Login]
        (mounted\<lparr>view := Signup\<rparr>)) = Some ''hunter22''"
  using password_shared [of mounted "''secret1''" "[]"]
    password_shared [of "mounted\<lparr>view := Signup\<rparr>" "''hunter22''" "[Login, ForgotPassword]"]
  by (simp add: mounted_def)

end
